theory Spec2Isabelle
  imports Complex_Main "HOL-Library.Multiset"
begin

section \<open>Data model of \<open>src/lib/api.ts\<close>\<close>

text \<open>
  The TypeScript interfaces become records. A JavaScript \<open>number\<close> is a \<open>real\<close>, a
  \<open>string\<close> a \<open>string\<close>, and \<open>string | null\<close> a \<open>string option\<close>. The interfaces
  \<open>JobStatus\<close>, \<open>JobResponse\<close> and \<open>SessionResponse\<close> share field names in the source;
  the records prefix them (\<open>js_\<close>, \<open>jr_\<close>, \<open>sr_\<close>) because record fields are global
  constants here.
\<close>

record Credentials =
  pinterest_token :: string
  amazon_tag :: string
  session_password :: string

record AutomationConfig =
  categories :: "string list"
  max_products_per_category :: real
  post_interval_seconds :: real
  daily_pin_limit :: real
  min_rating :: real
  min_reviews :: real
  price_range_min :: real
  price_range_max :: real

record AutomationRequest =
  credentials :: Credentials
  config :: AutomationConfig

datatype job_state = queued | running | completed | failed | cancelled

text \<open>
  \<open>JobStatus\<close>: the optional \<open>progress\<close> and \<open>results\<close> objects are read only by the
  rendering code, never by the functions modelled below; they are kept as the few numbers
  the source declares.
\<close>

record JobStatus =
  js_job_id :: string
  js_status :: job_state
  js_overall_progress :: "real option"
  js_created_at :: string
  js_updated_at :: string
  js_total_pins_created :: "real option"
  js_error :: "string option"

record SessionResponse =
  sr_session_id :: string
  sr_encrypted_credentials :: string
  sr_pinterest_boards :: "(string \<times> string) list"
  sr_message :: string

record JobResponse =
  jr_job_id :: string
  jr_status :: string
  jr_message :: string

section \<open>The network boundary\<close>

text \<open>
  The catch blocks read the body of a failed response untyped (\<open>catch (error: any)\<close>), so
  what they find under \<open>detail\<close> is any value a parsed body can hold: a JSON value, or
  \<open>undefined\<close> when the body is missing, is not an object or has no such field. A number
  is the value the JSON number parsed to, which is an infinity when the literal is too
  large; NaN is kept for completeness.
\<close>

datatype js_number = Finite real | Infinity | MinusInfinity | NaN

datatype js_value =
    JUndefined
  | JNull
  | JBool bool
  | JNum js_number
  | JStr string
  | JArray "js_value list"
  | JObject "(string \<times> js_value) list"

text \<open>
  What axios hands to a rejected promise: an error whose \<open>response\<close> is absent for a
  transport failure (network unreachable, timeout) and otherwise carries the HTTP status
  and the body. Of the body the client reads only \<open>data?.detail\<close>.
\<close>

record http_response =
  status :: int
  detail :: js_value

datatype axios_error = AxiosError (response: "http_response option")

text \<open>
  The outcome of one request: the promise resolves with the body, which has the type the
  source declares for it, or rejects.
\<close>

datatype 'a reply = Resolved 'a | Rejected axios_error

text \<open>
  The JavaScript \<open>Error\<close> object (of whatever subclass) an operation throws; only its
  message is read.
\<close>

datatype error = Error (message: string)

text \<open>
  What the class takes from the JavaScript engine: the conversion of a finite number to a
  string, and the message of the \<open>TypeError\<close> the engine throws when a value cannot be
  converted to a string.
\<close>

record js_engine =
  number_to_string :: "real \<Rightarrow> string"
  type_error_message :: string

text \<open>JavaScript truthiness of a value.\<close>

fun js_truthy :: "js_value \<Rightarrow> bool" where
  "js_truthy JUndefined = False"
| "js_truthy JNull = False"
| "js_truthy (JBool b) = b"
| "js_truthy (JNum (Finite x)) = (x \<noteq> 0)"
| "js_truthy (JNum Infinity) = True"
| "js_truthy (JNum MinusInfinity) = True"
| "js_truthy (JNum NaN) = False"
| "js_truthy (JStr x) = (x \<noteq> [])"
| "js_truthy (JArray vs) = True"
| "js_truthy (JObject kvs) = True"

text \<open>\<open>a || b\<close>\<close>

definition js_or :: "js_value \<Rightarrow> js_value \<Rightarrow> js_value" where
  "js_or a b = (if js_truthy a then a else b)"

text \<open>
  The language's \<open>ToString\<close>, \<open>None\<close> where it throws a \<open>TypeError\<close>. An array is joined
  with commas, \<open>null\<close> and \<open>undefined\<close> elements giving the empty string. A parsed object
  gives \<open>[object Object]\<close> through \<open>Object.prototype.toString\<close>, unless it has a key
  \<open>toString\<close> of its own: that value is not callable and the inherited \<open>valueOf\<close> returns
  the object, so the conversion throws.
\<close>

fun number_text :: "(real \<Rightarrow> string) \<Rightarrow> js_number \<Rightarrow> string" where
  "number_text ns (Finite x) = ns x"
| "number_text ns Infinity = ''Infinity''"
| "number_text ns MinusInfinity = ''-Infinity''"
| "number_text ns NaN = ''NaN''"

fun to_string :: "(real \<Rightarrow> string) \<Rightarrow> js_value \<Rightarrow> string option"
  and join_elements :: "(real \<Rightarrow> string) \<Rightarrow> js_value list \<Rightarrow> string option" where
  "to_string ns JUndefined = Some ''undefined''"
| "to_string ns JNull = Some ''null''"
| "to_string ns (JBool b) = Some (if b then ''true'' else ''false'')"
| "to_string ns (JNum n) = Some (number_text ns n)"
| "to_string ns (JStr x) = Some x"
| "to_string ns (JArray vs) = join_elements ns vs"
| "to_string ns (JObject kvs) =
     (if ''toString'' \<in> set (map fst kvs) then None else Some ''[object Object]'')"
| "join_elements ns [] = Some []"
| "join_elements ns (v # vs) =
     (case (if v = JUndefined \<or> v = JNull then Some [] else to_string ns v) of
        None \<Rightarrow> None
      | Some a \<Rightarrow>
          if vs = [] then Some a
          else (case join_elements ns vs of None \<Rightarrow> None | Some b \<Rightarrow> Some (a @ '','' @ b)))"

text \<open>
  \<open>new Error(v)\<close>: the message is \<open>ToString(v)\<close>; where that throws, the \<open>TypeError\<close>
  leaves the catch block in place of the new error.
\<close>

definition new_Error :: "js_engine \<Rightarrow> js_value \<Rightarrow> error" where
  "new_Error eng v =
     (case to_string (number_to_string eng) v of
        Some m \<Rightarrow> Error m
      | None \<Rightarrow> Error (type_error_message eng))"

datatype http_method = GET | POST | DELETE

datatype body = NoBody | CredentialsBody Credentials | AutomationBody AutomationRequest

record request =
  req_method :: http_method
  url :: string
  authorization :: "string option"
  body :: body

definition req :: "http_method \<Rightarrow> string \<Rightarrow> body \<Rightarrow> request" where
  "req m u b = \<lparr>req_method = m, url = u, authorization = None, body = b\<rparr>"

section \<open>The client state\<close>

text \<open>
  \<open>sessionId\<close> is the private field of \<open>ApiClient\<close>. The other fields are the
  environment the class acts on: \<open>localStorage\<close> is the browser store, \<open>None\<close> where
  \<open>typeof window === 'undefined'\<close> (server-side rendering); \<open>console_errors\<close> collects the
  \<open>console.error\<close> calls; \<open>sent\<close> is the log of the requests that left the client, in
  order, after the request interceptor ran; \<open>engine\<close> is the JavaScript engine the page
  runs on, which no operation changes. The store's \<open>getItem\<close>, \<open>setItem\<close> and
  \<open>removeItem\<close> are taken to succeed (no quota or security exception).
\<close>

record ApiClient =
  sessionId :: "string option"
  localStorage :: "(string \<rightharpoonup> string) option"
  console_errors :: "(string \<times> axios_error) list"
  sent :: "request list"
  engine :: js_engine

definition has_window :: "ApiClient \<Rightarrow> bool" where
  "has_window s = (localStorage s \<noteq> None)"

definition getItem :: "string \<Rightarrow> ApiClient \<Rightarrow> string option" where
  "getItem k s = (case localStorage s of None \<Rightarrow> None | Some m \<Rightarrow> m k)"

definition setItem :: "string \<Rightarrow> string \<Rightarrow> ApiClient \<Rightarrow> ApiClient" where
  "setItem k v s = s\<lparr>localStorage := map_option (\<lambda>m. m(k \<mapsto> v)) (localStorage s)\<rparr>"

definition removeItem :: "string \<Rightarrow> ApiClient \<Rightarrow> ApiClient" where
  "removeItem k s = s\<lparr>localStorage := map_option (\<lambda>m. m(k := None)) (localStorage s)\<rparr>"

text \<open>JavaScript truthiness of a \<open>string | null\<close>: \<open>null\<close> and \<open>""\<close> are falsy.\<close>

definition truthy :: "string option \<Rightarrow> bool" where
  "truthy v = (case v of None \<Rightarrow> False | Some x \<Rightarrow> x \<noteq> [])"

text \<open>\<open>a || b\<close> on an optional string \<open>a\<close> and a string \<open>b\<close>.\<close>

definition or_else :: "string option \<Rightarrow> string \<Rightarrow> string" where
  "or_else v d = (if truthy v then (case v of Some x \<Rightarrow> x | None \<Rightarrow> d) else d)"

text \<open>\<open>error.response?.data?.detail\<close>\<close>

definition error_detail :: "axios_error \<Rightarrow> js_value" where
  "error_detail e = (case response e of None \<Rightarrow> JUndefined | Some r \<Rightarrow> detail r)"

text \<open>\<open>error.response?.status\<close>\<close>

definition error_status :: "axios_error \<Rightarrow> int option" where
  "error_status e = map_option status (response e)"

section \<open>Constructor and interceptors\<close>

text \<open>The request interceptor: attach the bearer header when a session id is held.\<close>

definition request_interceptor :: "ApiClient \<Rightarrow> request \<Rightarrow> request" where
  "request_interceptor s cfg =
     (case sessionId s of
        None \<Rightarrow> cfg
      | Some sid \<Rightarrow> if sid \<noteq> [] then cfg\<lparr>authorization := Some (''Bearer '' @ sid)\<rparr> else cfg)"

text \<open>The two \<open>removeItem\<close> calls behind the \<open>typeof window\<close> guard.\<close>

definition clear_storage :: "ApiClient \<Rightarrow> ApiClient" where
  "clear_storage s =
     (if has_window s then removeItem ''encrypted_credentials'' (removeItem ''session_id'' s)
      else s)"

text \<open>
  The response interceptor's error handler: on status 401 drop the session id and clear
  the store; in every case reject with the error it was given.
\<close>

definition response_interceptor :: "ApiClient \<Rightarrow> axios_error \<Rightarrow> ApiClient \<times> axios_error" where
  "response_interceptor s e =
     (if error_status e = Some 401 then (clear_storage (s\<lparr>sessionId := None\<rparr>), e)
      else (s, e))"

text \<open>
  One call of \<open>this.client.get/post/delete\<close>: the request interceptor runs, the request
  leaves, and the reply comes back through the response interceptor.
\<close>

definition send :: "ApiClient \<Rightarrow> request \<Rightarrow> 'a reply \<Rightarrow> ApiClient \<times> 'a reply" where
  "send s cfg r =
     (let s1 = s\<lparr>sent := sent s @ [request_interceptor s cfg]\<rparr> in
      case r of
        Resolved x \<Rightarrow> (s1, Resolved x)
      | Rejected e \<Rightarrow> (case response_interceptor s1 e of (s2, e') \<Rightarrow> (s2, Rejected e')))"

text \<open>
  The end of the constructor: load the session id from the store when there is a window
  and the saved value is truthy. The logs are the environment's and are passed through.
\<close>

definition constructor :: "ApiClient \<Rightarrow> ApiClient" where
  "constructor env =
     (let s = env\<lparr>sessionId := None\<rparr> in
      if has_window s then
        (let savedSessionId = getItem ''session_id'' s in
         if truthy savedSessionId then s\<lparr>sessionId := savedSessionId\<rparr> else s)
      else s)"

section \<open>Operations of the Automation Session API\<close>

definition startSession ::
  "ApiClient \<Rightarrow> Credentials \<Rightarrow> SessionResponse reply \<Rightarrow> ApiClient \<times> (error + SessionResponse)" where
  "startSession s creds r =
     (case send s (req POST ''/api/start-session'' (CredentialsBody creds)) r of
        (s1, Resolved data) \<Rightarrow>
          (let s2 = s1\<lparr>sessionId := Some (sr_session_id data)\<rparr>;
               s3 = (if has_window s2 then
                       setItem ''encrypted_credentials'' (sr_encrypted_credentials data)
                         (setItem ''session_id'' (sr_session_id data) s2)
                     else s2)
           in (s3, Inr data))
      | (s1, Rejected e) \<Rightarrow>
          (s1, Inl (new_Error (engine s1) (js_or (error_detail e) (JStr ''Failed to start session'')))))"

text \<open>
  \<open>endSession\<close>: the request is made only when the session id is truthy; a rejection is
  logged; the \<open>finally\<close> block always runs. The result type shows that nothing is thrown
  by construction of the \<open>try/catch/finally\<close>: the catch block has no \<open>throw\<close>.
\<close>

definition endSession :: "ApiClient \<Rightarrow> unit reply \<Rightarrow> ApiClient \<times> (error + unit)" where
  "endSession s r =
     (let s1 = (if truthy (sessionId s) then
                  (case send s (req DELETE ''/api/session'' NoBody) r of
                     (s', Resolved _) \<Rightarrow> s'
                   | (s', Rejected e) \<Rightarrow>
                       s'\<lparr>console_errors := console_errors s' @ [(''Error ending session:'', e)]\<rparr>)
                else s)
      in (clear_storage (s1\<lparr>sessionId := None\<rparr>), Inr ()))"

definition startAutomation ::
  "ApiClient \<Rightarrow> AutomationRequest \<Rightarrow> JobResponse reply \<Rightarrow> ApiClient \<times> (error + JobResponse)" where
  "startAutomation s request r =
     (case send s (req POST ''/api/start-automation'' (AutomationBody request)) r of
        (s1, Resolved data) \<Rightarrow> (s1, Inr data)
      | (s1, Rejected e) \<Rightarrow>
          (s1, Inl (new_Error (engine s1) (js_or (error_detail e) (JStr ''Failed to start automation'')))))"

definition getJobStatus ::
  "ApiClient \<Rightarrow> string \<Rightarrow> JobStatus reply \<Rightarrow> ApiClient \<times> (error + JobStatus)" where
  "getJobStatus s jobId r =
     (case send s (req GET (''/api/job-status/'' @ jobId) NoBody) r of
        (s1, Resolved data) \<Rightarrow> (s1, Inr data)
      | (s1, Rejected e) \<Rightarrow>
          (s1, Inl (new_Error (engine s1) (js_or (error_detail e) (JStr ''Failed to get job status'')))))"

definition getUserJobs ::
  "ApiClient \<Rightarrow> JobStatus list reply \<Rightarrow> ApiClient \<times> (error + JobStatus list)" where
  "getUserJobs s r =
     (case send s (req GET ''/api/jobs'' NoBody) r of
        (s1, Resolved data) \<Rightarrow> (s1, Inr data)
      | (s1, Rejected e) \<Rightarrow>
          (s1, Inl (new_Error (engine s1) (js_or (error_detail e) (JStr ''Failed to get user jobs'')))))"

definition cancelJob :: "ApiClient \<Rightarrow> string \<Rightarrow> unit reply \<Rightarrow> ApiClient \<times> (error + unit)" where
  "cancelJob s jobId r =
     (case send s (req DELETE (''/api/job/'' @ jobId) NoBody) r of
        (s1, Resolved _) \<Rightarrow> (s1, Inr ())
      | (s1, Rejected e) \<Rightarrow>
          (s1, Inl (new_Error (engine s1) (js_or (error_detail e) (JStr ''Failed to cancel job'')))))"

definition getPrivacyPolicy :: "ApiClient \<Rightarrow> string reply \<Rightarrow> ApiClient \<times> (error + string)" where
  "getPrivacyPolicy s r =
     (case send s (req GET ''/api/privacy-policy'' NoBody) r of
        (s1, Resolved data) \<Rightarrow> (s1, Inr data)
      | (s1, Rejected e) \<Rightarrow> (s1, Inl (Error ''Failed to load privacy policy'')))"

definition healthCheck :: "ApiClient \<Rightarrow> string reply \<Rightarrow> ApiClient \<times> (error + string)" where
  "healthCheck s r =
     (case send s (req GET ''/api/health'' NoBody) r of
        (s1, Resolved data) \<Rightarrow> (s1, Inr data)
      | (s1, Rejected e) \<Rightarrow> (s1, Inl (Error ''Health check failed'')))"

definition isAuthenticated :: "ApiClient \<Rightarrow> bool" where
  "isAuthenticated s = (sessionId s \<noteq> None)"

definition getSessionId :: "ApiClient \<Rightarrow> string option" where
  "getSessionId s = sessionId s"

definition getStoredCredentials :: "ApiClient \<Rightarrow> string option" where
  "getStoredCredentials s =
     (if has_window s then getItem ''encrypted_credentials'' s else None)"

section \<open>Executions of the client\<close>

text \<open>
  A call of the client together with the reply the network gives to the request it makes
  (if it makes one). \<open>Construct\<close> is a page load: the singleton is built again over the
  same store.
\<close>

datatype call =
    Construct
  | StartSession Credentials "SessionResponse reply"
  | EndSession "unit reply"
  | StartAutomation AutomationRequest "JobResponse reply"
  | GetJobStatus string "JobStatus reply"
  | GetUserJobs "JobStatus list reply"
  | CancelJob string "unit reply"
  | GetPrivacyPolicy "string reply"
  | HealthCheck "string reply"
  | IsAuthenticated
  | GetSessionId
  | GetStoredCredentials

fun exec :: "ApiClient \<Rightarrow> call \<Rightarrow> ApiClient" where
  "exec s Construct = constructor s"
| "exec s (StartSession c r) = fst (startSession s c r)"
| "exec s (EndSession r) = fst (endSession s r)"
| "exec s (StartAutomation a r) = fst (startAutomation s a r)"
| "exec s (GetJobStatus j r) = fst (getJobStatus s j r)"
| "exec s (GetUserJobs r) = fst (getUserJobs s r)"
| "exec s (CancelJob j r) = fst (cancelJob s j r)"
| "exec s (GetPrivacyPolicy r) = fst (getPrivacyPolicy s r)"
| "exec s (HealthCheck r) = fst (healthCheck s r)"
| "exec s IsAuthenticated = s"
| "exec s GetSessionId = s"
| "exec s GetStoredCredentials = s"

fun run :: "ApiClient \<Rightarrow> call list \<Rightarrow> ApiClient" where
  "run s [] = s"
| "run s (c # cs) = run (exec s c) cs"

text \<open>A call that starts a new session: \<open>startSession\<close> answered successfully.\<close>

fun starts_session :: "call \<Rightarrow> bool" where
  "starts_session (StartSession c (Resolved d)) = True"
| "starts_session c = False"

text \<open>
  The rejection the client receives during a call, if any. \<open>endSession\<close> makes its request
  only when the session id is truthy, so it receives nothing otherwise.
\<close>

fun rejection :: "ApiClient \<Rightarrow> call \<Rightarrow> axios_error option" where
  "rejection s (StartSession c (Rejected e)) = Some e"
| "rejection s (EndSession (Rejected e)) = (if truthy (sessionId s) then Some e else None)"
| "rejection s (StartAutomation a (Rejected e)) = Some e"
| "rejection s (GetJobStatus j (Rejected e)) = Some e"
| "rejection s (GetUserJobs (Rejected e)) = Some e"
| "rejection s (CancelJob j (Rejected e)) = Some e"
| "rejection s (GetPrivacyPolicy (Rejected e)) = Some e"
| "rejection s (HealthCheck (Rejected e)) = Some e"
| "rejection s c = None"

section \<open>The dashboard page (\<open>src/pages/dashboard.tsx\<close>)\<close>

text \<open>\<open>String.prototype.includes\<close>\<close>

fun starts_with :: "string \<Rightarrow> string \<Rightarrow> bool" where
  "starts_with s [] = True"
| "starts_with [] (p # ps) = False"
| "starts_with (c # cs) (p # ps) = (c = p \<and> starts_with cs ps)"

fun str_includes :: "string \<Rightarrow> string \<Rightarrow> bool" where
  "str_includes [] p = (p = [])"
| "str_includes (c # cs) p = (starts_with (c # cs) p \<or> str_includes cs p)"

text \<open>
  \<open>Array.prototype.sort\<close> with a comparator is the engine's. The comparator returns a
  number or NaN (\<open>None\<close>); the language's SortCompare reads NaN as \<open>+0\<close>. The language
  fixes the result only so far: it is a rearrangement of the array, and it is in the
  comparator's order when the comparator is consistent on the elements (never NaN,
  reflexive and symmetric in its zeros, transitive in its zeros, negatives and
  positives). For any other comparator the order is left to the engine. So the sort is a
  parameter \<open>sort_fn\<close> of the page's functions, and \<open>conforming\<close> says what the language
  promises of it.
\<close>

definition sort_compare :: "('a \<Rightarrow> 'a \<Rightarrow> int option) \<Rightarrow> 'a \<Rightarrow> 'a \<Rightarrow> int" where
  "sort_compare cmp x y = (case cmp x y of None \<Rightarrow> 0 | Some v \<Rightarrow> v)"

definition consistent_on :: "('a \<Rightarrow> 'a \<Rightarrow> int option) \<Rightarrow> 'a set \<Rightarrow> bool" where
  "consistent_on cmp S =
     ((\<forall>a\<in>S. \<forall>b\<in>S. cmp a b \<noteq> None) \<and>
      (\<forall>a\<in>S. sort_compare cmp a a = 0) \<and>
      (\<forall>a\<in>S. \<forall>b\<in>S. sort_compare cmp a b = 0 \<longrightarrow> sort_compare cmp b a = 0) \<and>
      (\<forall>a\<in>S. \<forall>b\<in>S. \<forall>c\<in>S.
         (sort_compare cmp a b = 0 \<and> sort_compare cmp b c = 0 \<longrightarrow> sort_compare cmp a c = 0) \<and>
         (sort_compare cmp a b < 0 \<and> sort_compare cmp b c < 0 \<longrightarrow> sort_compare cmp a c < 0) \<and>
         (sort_compare cmp a b > 0 \<and> sort_compare cmp b c > 0 \<longrightarrow> sort_compare cmp a c > 0)))"

definition conforming ::
  "(('a \<Rightarrow> 'a \<Rightarrow> int option) \<Rightarrow> 'a list \<Rightarrow> 'a list) \<Rightarrow> bool" where
  "conforming sort_fn =
     (\<forall>cmp xs.
        mset (sort_fn cmp xs) = mset xs \<and>
        (consistent_on cmp (set xs) \<longrightarrow>
           sorted_wrt (\<lambda>a b. sort_compare cmp a b \<le> 0) (sort_fn cmp xs)))"

text \<open>
  One engine: the stable insertion sort, in which an element goes before the first element
  it does not compare greater than. It conforms (\<open>conforming_array_sort\<close> below).
\<close>

fun place :: "('a \<Rightarrow> 'a \<Rightarrow> int option) \<Rightarrow> 'a \<Rightarrow> 'a list \<Rightarrow> 'a list" where
  "place cmp x [] = [x]"
| "place cmp x (y # ys) =
     (if sort_compare cmp x y \<le> 0 then x # y # ys else y # place cmp x ys)"

fun array_sort :: "('a \<Rightarrow> 'a \<Rightarrow> int option) \<Rightarrow> 'a list \<Rightarrow> 'a list" where
  "array_sort cmp [] = []"
| "array_sort cmp (x # xs) = place cmp x (array_sort cmp xs)"

text \<open>
  The comparator of \<open>loadJobs\<close>:
  \<open>(a, b) => new Date(b.created_at).getTime() - new Date(a.created_at).getTime()\<close>.
  Parsing a date string is the JavaScript engine's; it is the parameter \<open>getTime\<close>, which
  gives the milliseconds since the epoch, or \<open>None\<close> for NaN (an invalid date). A
  difference with NaN is NaN. The sort reads only the sign of the difference, which the
  rounding of the floating-point subtraction keeps.
\<close>

definition by_created_desc ::
  "(string \<Rightarrow> int option) \<Rightarrow> JobStatus \<Rightarrow> JobStatus \<Rightarrow> int option" where
  "by_created_desc getTime a b =
     (case getTime (js_created_at b) of
        None \<Rightarrow> None
      | Some tb \<Rightarrow> (case getTime (js_created_at a) of None \<Rightarrow> None | Some ta \<Rightarrow> Some (tb - ta)))"

datatype toast =
    ToastError string
  | ToastSuccess string
  | ToastSessionStarted nat
  | ToastAutomationStarted string

text \<open>
  The page state: the three \<open>useState\<close> cells, the toasts shown so far, whether the
  \<open>setInterval\<close> timer is set, and the routes pushed.
\<close>

record Dashboard =
  jobs :: "JobStatus list"
  loading :: bool
  refreshing :: bool
  toasts :: "toast list"
  interval_set :: bool
  pushed :: "string list"

type_synonym jobs_sort =
  "(JobStatus \<Rightarrow> JobStatus \<Rightarrow> int option) \<Rightarrow> JobStatus list \<Rightarrow> JobStatus list"

definition loadJobs ::
  "jobs_sort \<Rightarrow> (string \<Rightarrow> int option) \<Rightarrow> ApiClient \<times> Dashboard \<Rightarrow> JobStatus list reply
     \<Rightarrow> ApiClient \<times> Dashboard" where
  "loadJobs sort_fn getTime sd r =
     (case sd of (s, d) \<Rightarrow>
        (case getUserJobs s r of
           (s1, Inr userJobs) \<Rightarrow>
             (s1, d\<lparr>jobs := sort_fn (by_created_desc getTime) userJobs,
                     loading := False, refreshing := False\<rparr>)
         | (s1, Inl err) \<Rightarrow>
             (s1, (if \<not> str_includes (message err) ''401''
                   then d\<lparr>toasts := toasts d @ [ToastError ''Failed to load jobs'']\<rparr>
                   else d)\<lparr>loading := False, refreshing := False\<rparr>)))"

text \<open>The effect on mount: redirect when unauthenticated, else fetch once and set the timer.\<close>

definition mount ::
  "jobs_sort \<Rightarrow> (string \<Rightarrow> int option) \<Rightarrow> ApiClient \<times> Dashboard \<Rightarrow> JobStatus list reply
     \<Rightarrow> ApiClient \<times> Dashboard" where
  "mount sort_fn getTime sd r =
     (case sd of (s, d) \<Rightarrow>
        if \<not> isAuthenticated s then (s, d\<lparr>pushed := pushed d @ [''/'']\<rparr>)
        else (case loadJobs sort_fn getTime (s, d) r of
                (s1, d1) \<Rightarrow> (s1, d1\<lparr>interval_set := True\<rparr>)))"

definition handleRefresh ::
  "jobs_sort \<Rightarrow> (string \<Rightarrow> int option) \<Rightarrow> ApiClient \<times> Dashboard \<Rightarrow> JobStatus list reply
     \<Rightarrow> ApiClient \<times> Dashboard" where
  "handleRefresh sort_fn getTime sd r =
     (case sd of (s, d) \<Rightarrow> loadJobs sort_fn getTime (s, d\<lparr>refreshing := True\<rparr>) r)"

text \<open>A run of the poller: one \<open>loadJobs\<close> per reply, in order.\<close>

fun poll ::
  "jobs_sort \<Rightarrow> (string \<Rightarrow> int option) \<Rightarrow> ApiClient \<times> Dashboard \<Rightarrow> JobStatus list reply list
     \<Rightarrow> ApiClient \<times> Dashboard" where
  "poll sort_fn getTime sd [] = sd"
| "poll sort_fn getTime sd (r # rs) = poll sort_fn getTime (loadJobs sort_fn getTime sd r) rs"

section \<open>The landing form (the \<open>Home\<close> page)\<close>

definition defaultAutomationConfig :: AutomationConfig where
  "defaultAutomationConfig =
     \<lparr>categories = [''electronics'', ''home'', ''fashion'', ''health''],
      max_products_per_category = 5,
      post_interval_seconds = 300,
      daily_pin_limit = 50,
      min_rating = 4.0,
      min_reviews = 10,
      price_range_min = 5,
      price_range_max = 500\<rparr>"

record FormValues =
  fv_pinterest_token :: string
  fv_amazon_tag :: string
  fv_session_password :: string
  fv_categories :: "string list"
  fv_max_products_per_category :: real
  fv_post_interval_seconds :: real
  fv_daily_pin_limit :: real
  fv_min_rating :: real
  fv_min_reviews :: real
  fv_price_range_min :: real
  fv_price_range_max :: real

text \<open>
  \<open>useForm\<close>'s \<open>defaultValues\<close>. The three credential fields have no default; an
  untouched text input is the empty string.
\<close>

definition defaultValues :: FormValues where
  "defaultValues =
     \<lparr>fv_pinterest_token = [],
      fv_amazon_tag = [],
      fv_session_password = [],
      fv_categories = categories defaultAutomationConfig,
      fv_max_products_per_category = max_products_per_category defaultAutomationConfig,
      fv_post_interval_seconds = post_interval_seconds defaultAutomationConfig,
      fv_daily_pin_limit = daily_pin_limit defaultAutomationConfig,
      fv_min_rating = min_rating defaultAutomationConfig,
      fv_min_reviews = min_reviews defaultAutomationConfig,
      fv_price_range_min = price_range_min defaultAutomationConfig,
      fv_price_range_max = price_range_max defaultAutomationConfig\<rparr>"

definition toggleCategory :: "string \<Rightarrow> FormValues \<Rightarrow> FormValues" where
  "toggleCategory category f =
     (let current = fv_categories f;
          updated = (if category \<in> set current then filter (\<lambda>c. c \<noteq> category) current
                     else current @ [category])
      in f\<lparr>fv_categories := updated\<rparr>)"

text \<open>
  What the user can do to the form: type into one of the three credential inputs, tick or
  untick a category, or change one of the registered number inputs (\<open>daily_pin_limit\<close> has
  no input in the page).
\<close>

datatype edit =
    Type_pinterest_token string
  | Type_amazon_tag string
  | Type_session_password string
  | Toggle_category string
  | Input_max_products_per_category real
  | Input_post_interval_seconds real
  | Input_min_rating real
  | Input_min_reviews real
  | Input_price_range_min real
  | Input_price_range_max real

fun apply_edit :: "FormValues \<Rightarrow> edit \<Rightarrow> FormValues" where
  "apply_edit f (Type_pinterest_token v) = f\<lparr>fv_pinterest_token := v\<rparr>"
| "apply_edit f (Type_amazon_tag v) = f\<lparr>fv_amazon_tag := v\<rparr>"
| "apply_edit f (Type_session_password v) = f\<lparr>fv_session_password := v\<rparr>"
| "apply_edit f (Toggle_category c) = toggleCategory c f"
| "apply_edit f (Input_max_products_per_category v) = f\<lparr>fv_max_products_per_category := v\<rparr>"
| "apply_edit f (Input_post_interval_seconds v) = f\<lparr>fv_post_interval_seconds := v\<rparr>"
| "apply_edit f (Input_min_rating v) = f\<lparr>fv_min_rating := v\<rparr>"
| "apply_edit f (Input_min_reviews v) = f\<lparr>fv_min_reviews := v\<rparr>"
| "apply_edit f (Input_price_range_min v) = f\<lparr>fv_price_range_min := v\<rparr>"
| "apply_edit f (Input_price_range_max v) = f\<lparr>fv_price_range_max := v\<rparr>"

text \<open>An edit of a credential input, as opposed to an edit of the configuration.\<close>

fun credential_edit :: "edit \<Rightarrow> bool" where
  "credential_edit (Type_pinterest_token v) = True"
| "credential_edit (Type_amazon_tag v) = True"
| "credential_edit (Type_session_password v) = True"
| "credential_edit e = False"

text \<open>
  The checks on the fields that are always in the page: the three \<open>required\<close> rules, the
  \<open>minLength\<close> of the password, and the submit button, disabled while no category is
  selected. The browser's checks of the number inputs are \<open>native_valid\<close> below.
\<close>

definition form_valid :: "FormValues \<Rightarrow> bool" where
  "form_valid f =
     (fv_pinterest_token f \<noteq> [] \<and> fv_amazon_tag f \<noteq> [] \<and> fv_session_password f \<noteq> [] \<and>
      8 \<le> length (fv_session_password f) \<and> fv_categories f \<noteq> [])"

text \<open>
  The browser's own check of a rendered \<open>type="number"\<close> input that holds a number: not
  below \<open>min\<close>, not above \<open>max\<close>, and a whole number of steps away from \<open>min\<close> (the step
  is 1 where the input gives none). Every number input of the page has a \<open>min\<close>.
\<close>

definition number_input_ok :: "real \<Rightarrow> real option \<Rightarrow> real \<Rightarrow> real \<Rightarrow> bool" where
  "number_input_ok lo hi step v =
     (lo \<le> v \<and> (case hi of None \<Rightarrow> True | Some h \<Rightarrow> v \<le> h) \<and> (v - lo) / step \<in> \<int>)"

definition native_valid :: "FormValues \<Rightarrow> bool" where
  "native_valid f =
     (number_input_ok 1 (Some 20) 1 (fv_max_products_per_category f) \<and>
      number_input_ok 60 None 1 (fv_post_interval_seconds f) \<and>
      number_input_ok 1 (Some 5) (1 / 10) (fv_min_rating f) \<and>
      number_input_ok 0 None 1 (fv_min_reviews f) \<and>
      number_input_ok 0 None 1 (fv_price_range_min f) \<and>
      number_input_ok 1 None 1 (fv_price_range_max f))"

text \<open>
  The page state: the two \<open>useState\<close> cells, the toasts shown, and whether the redirect
  has been scheduled.
\<close>

record Home =
  h_loading :: bool
  h_showAdvanced :: bool
  h_toasts :: "toast list"
  h_redirect_scheduled :: bool

definition onSubmit ::
  "ApiClient \<times> Home \<Rightarrow> FormValues \<Rightarrow> SessionResponse reply \<Rightarrow> JobResponse reply
     \<Rightarrow> ApiClient \<times> Home" where
  "onSubmit sh data r1 r2 =
     (case sh of (s, h) \<Rightarrow>
        (let creds = \<lparr>pinterest_token = fv_pinterest_token data,
                      amazon_tag = fv_amazon_tag data,
                      session_password = fv_session_password data\<rparr>;
             cfg = \<lparr>categories = fv_categories data,
                    max_products_per_category = fv_max_products_per_category data,
                    post_interval_seconds = fv_post_interval_seconds data,
                    daily_pin_limit = fv_daily_pin_limit data,
                    min_rating = fv_min_rating data,
                    min_reviews = fv_min_reviews data,
                    price_range_min = fv_price_range_min data,
                    price_range_max = fv_price_range_max data\<rparr>
         in case startSession s creds r1 of
              (s1, Inl err) \<Rightarrow>
                (s1, h\<lparr>h_loading := False,
                        h_toasts := h_toasts h @
                          [ToastError (or_else (Some (message err)) ''Failed to start automation'')]\<rparr>)
            | (s1, Inr sessionResponse) \<Rightarrow>
                (let h1 = h\<lparr>h_toasts := h_toasts h @
                             [ToastSessionStarted (length (sr_pinterest_boards sessionResponse))]\<rparr>
                 in case startAutomation s1 \<lparr>credentials = creds, config = cfg\<rparr> r2 of
                      (s2, Inl err) \<Rightarrow>
                        (s2, h1\<lparr>h_loading := False,
                                 h_toasts := h_toasts h1 @
                                   [ToastError (or_else (Some (message err)) ''Failed to start automation'')]\<rparr>)
                    | (s2, Inr automationResponse) \<Rightarrow>
                        (s2, h1\<lparr>h_loading := False,
                                 h_toasts := h_toasts h1 @
                                   [ToastAutomationStarted (jr_job_id automationResponse)],
                                 h_redirect_scheduled := True\<rparr>))))"

text \<open>
  Submitting the form, \<open>onSubmit={handleSubmit(onSubmit)}\<close>: the browser first checks the
  number inputs, which are in the page only while the advanced settings are shown; then
  \<open>onSubmit\<close> runs if the form passes the checks of \<open>form_valid\<close>. The numeric fields hold
  numbers: an emptied number input, which \<open>valueAsNumber\<close> reads as NaN, is not among the
  edits modelled. The button is disabled as well while \<open>loading\<close> is set, which is only
  during a submission; a submission here runs to its end before the next one starts, so
  that guard is not part of the model.
\<close>

definition handleSubmit ::
  "ApiClient \<times> Home \<Rightarrow> FormValues \<Rightarrow> SessionResponse reply \<Rightarrow> JobResponse reply
     \<Rightarrow> ApiClient \<times> Home" where
  "handleSubmit sh data r1 r2 =
     (if (h_showAdvanced (snd sh) \<longrightarrow> native_valid data) \<and> form_valid data
      then onSubmit sh data r1 r2 else sh)"

section \<open>Properties the claims speak of\<close>

text \<open>Both persisted keys are in the store, or neither is.\<close>

definition paired :: "ApiClient \<Rightarrow> bool" where
  "paired s = ((getItem ''session_id'' s = None) = (getItem ''encrypted_credentials'' s = None))"

text \<open>No session is held, in memory or in the store.\<close>

definition no_session :: "ApiClient \<Rightarrow> bool" where
  "no_session s = (sessionId s = None \<and> getItem ''session_id'' s = None)"

text \<open>None of the requests carries a bearer header.\<close>

definition unauthenticated :: "request list \<Rightarrow> bool" where
  "unauthenticated qs = list_all (\<lambda>q. authorization q = None) qs"

text \<open>
  The error policy in the specification's words: the message of the server body when the
  body carries one, the operation's fixed fallback otherwise.
\<close>

definition claimed_message :: "string \<Rightarrow> axios_error \<Rightarrow> string" where
  "claimed_message fallback e = (case error_detail e of JStr m \<Rightarrow> m | _ \<Rightarrow> fallback)"

text \<open>
  The error policy as the five operations have it, kind of \<open>detail\<close> by kind: the fallback
  for a missing, \<open>null\<close>, \<open>false\<close>, zero, NaN or empty \<open>detail\<close>; a non-empty string as it
  is; \<open>true\<close>, any other number, an array and an object in their string conversion, with
  the engine's \<open>TypeError\<close> where that conversion throws.
\<close>

fun detail_message :: "js_engine \<Rightarrow> string \<Rightarrow> js_value \<Rightarrow> string" where
  "detail_message eng fallback JUndefined = fallback"
| "detail_message eng fallback JNull = fallback"
| "detail_message eng fallback (JBool b) = (if b then ''true'' else fallback)"
| "detail_message eng fallback (JNum (Finite x)) =
     (if x = 0 then fallback else number_to_string eng x)"
| "detail_message eng fallback (JNum Infinity) = ''Infinity''"
| "detail_message eng fallback (JNum MinusInfinity) = ''-Infinity''"
| "detail_message eng fallback (JNum NaN) = fallback"
| "detail_message eng fallback (JStr m) = (if m = [] then fallback else m)"
| "detail_message eng fallback (JArray vs) =
     (case join_elements (number_to_string eng) vs of
        Some m \<Rightarrow> m
      | None \<Rightarrow> type_error_message eng)"
| "detail_message eng fallback (JObject kvs) =
     (if ''toString'' \<in> set (map fst kvs) then type_error_message eng else ''[object Object]'')"

definition expected_message :: "js_engine \<Rightarrow> string \<Rightarrow> axios_error \<Rightarrow> string" where
  "expected_message eng fallback e =
     (case response e of None \<Rightarrow> fallback | Some r \<Rightarrow> detail_message eng fallback (detail r))"

text \<open>
  Job \<open>a\<close> was created no earlier than job \<open>b\<close>; false when either creation time does not
  parse.
\<close>

definition newest_first :: "(string \<Rightarrow> int option) \<Rightarrow> JobStatus \<Rightarrow> JobStatus \<Rightarrow> bool" where
  "newest_first getTime a b =
     (case getTime (js_created_at a) of
        None \<Rightarrow> False
      | Some ta \<Rightarrow> (case getTime (js_created_at b) of None \<Rightarrow> False | Some tb \<Rightarrow> tb \<le> ta))"

text \<open>The job's \<open>created_at\<close> parses as a date.\<close>

definition parses :: "(string \<Rightarrow> int option) \<Rightarrow> JobStatus \<Rightarrow> bool" where
  "parses getTime j = (getTime (js_created_at j) \<noteq> None)"

text \<open>The credentials a form holds.\<close>

definition form_credentials :: "FormValues \<Rightarrow> Credentials" where
  "form_credentials f =
     \<lparr>pinterest_token = fv_pinterest_token f, amazon_tag = fv_amazon_tag f,
      session_password = fv_session_password f\<rparr>"

text \<open>The configuration \<open>onSubmit\<close> builds from the form data.\<close>

definition form_config :: "FormValues \<Rightarrow> AutomationConfig" where
  "form_config data =
     \<lparr>categories = fv_categories data,
      max_products_per_category = fv_max_products_per_category data,
      post_interval_seconds = fv_post_interval_seconds data,
      daily_pin_limit = fv_daily_pin_limit data,
      min_rating = fv_min_rating data,
      min_reviews = fv_min_reviews data,
      price_range_min = fv_price_range_min data,
      price_range_max = fv_price_range_max data\<rparr>"

section \<open>Sample inputs\<close>

text \<open>
  An engine for the samples: whole numbers are printed in decimal, and the \<open>TypeError\<close>
  message is V8's.
\<close>

fun decimal :: "nat \<Rightarrow> string" where
  "decimal n =
     (if n < 10 then [char_of (48 + n)] else decimal (n div 10) @ [char_of (48 + n mod 10)])"

declare decimal.simps [simp del]

definition sample_engine :: js_engine where
  "sample_engine =
     \<lparr>number_to_string = (\<lambda>x. (if x < 0 then ''-'' else []) @ decimal (nat \<lfloor>\<bar>x\<bar>\<rfloor>)),
      type_error_message = ''Cannot convert object to primitive value''\<rparr>"

text \<open>A browser whose store holds a saved session, and two clients over it.\<close>

definition saved_store :: "string \<rightharpoonup> string" where
  "saved_store = [''session_id'' \<mapsto> ''s-1'', ''encrypted_credentials'' \<mapsto> ''U2FsdGVk'']"

definition logged_in :: ApiClient where
  "logged_in = \<lparr>sessionId = Some ''s-1'', localStorage = Some saved_store,
                 console_errors = [], sent = [], engine = sample_engine\<rparr>"

definition logged_out :: ApiClient where
  "logged_out = \<lparr>sessionId = None, localStorage = Some saved_store,
                  console_errors = [], sent = [], engine = sample_engine\<rparr>"

definition sample_credentials :: Credentials where
  "sample_credentials =
     \<lparr>pinterest_token = ''pina_token'', amazon_tag = ''me-20'', session_password = ''correct horse''\<rparr>"

definition sample_session :: SessionResponse where
  "sample_session =
     \<lparr>sr_session_id = ''s-2'', sr_encrypted_credentials = ''c2FsdA'',
      sr_pinterest_boards = [(''b1'', ''Gadgets'')], sr_message = ''ok''\<rparr>"

definition unauthorized :: axios_error where
  "unauthorized = AxiosError (Some \<lparr>status = 401, detail = JStr ''Invalid or expired session''\<rparr>)"

definition unavailable :: axios_error where
  "unavailable = AxiosError (Some \<lparr>status = 503, detail = JStr ''Service unavailable''\<rparr>)"

definition timed_out :: axios_error where
  "timed_out = AxiosError None"

definition misleading :: axios_error where
  "misleading = AxiosError (Some \<lparr>status = 500, detail = JStr ''upstream answered 401''\<rparr>)"

definition empty_detail :: axios_error where
  "empty_detail = AxiosError (Some \<lparr>status = 400, detail = JStr []\<rparr>)"

text \<open>A validation failure whose \<open>detail\<close> is a list of objects.\<close>

definition validation_failed :: axios_error where
  "validation_failed =
     AxiosError (Some \<lparr>status = 422,
       detail = JArray [JObject [(''loc'', JArray [JStr ''body'', JStr ''amazon_tag'']),
                                 (''msg'', JStr ''field required''),
                                 (''type'', JStr ''value_error.missing'')]]\<rparr>)"

definition fresh_dashboard :: Dashboard where
  "fresh_dashboard =
     \<lparr>jobs = [], loading = True, refreshing = False, toasts = [], interval_set = True, pushed = []\<rparr>"

definition fresh_home :: Home where
  "fresh_home =
     \<lparr>h_loading = False, h_showAdvanced = True, h_toasts = [], h_redirect_scheduled = False\<rparr>"

definition sample_getTime :: "string \<Rightarrow> int option" where
  "sample_getTime x =
     (if x = ''2024-01-01T00:00:00Z'' then Some 1704067200000
      else if x = ''2024-01-02T00:00:00Z'' then Some 1704153600000
      else if x = ''2024-01-03T00:00:00Z'' then Some 1704240000000
      else None)"

definition job_at :: "string \<Rightarrow> string \<Rightarrow> JobStatus" where
  "job_at i t =
     \<lparr>js_job_id = i, js_status = running, js_overall_progress = Some 42, js_created_at = t,
      js_updated_at = t, js_total_pins_created = None, js_error = None\<rparr>"

definition sample_jobs :: "JobStatus list" where
  "sample_jobs = [job_at ''older'' ''2024-01-01T00:00:00Z'', job_at ''newer'' ''2024-01-02T00:00:00Z'']"

text \<open>A fetched list one of whose jobs carries a \<open>created_at\<close> that is no date.\<close>

definition unparsed_jobs :: "JobStatus list" where
  "unparsed_jobs =
     [job_at ''j0'' ''2024-01-01T00:00:00Z'', job_at ''j2'' ''not a date'',
      job_at ''j3'' ''2024-01-03T00:00:00Z'']"

definition sample_edits :: "edit list" where
  "sample_edits =
     [Type_pinterest_token ''pina_token'', Type_amazon_tag ''me-20'',
      Type_session_password ''correct horse'']"

definition sample_job :: JobResponse where
  "sample_job = \<lparr>jr_job_id = ''abc123'', jr_status = ''queued'', jr_message = ''started''\<rparr>"

section \<open>Facts about the store and about one request\<close>

lemma getItem_clear_storage:
  "getItem ''session_id'' (clear_storage s) = None"
  "getItem ''encrypted_credentials'' (clear_storage s) = None"
  by (auto simp: clear_storage_def getItem_def removeItem_def has_window_def split: option.splits)

lemma sessionId_clear_storage: "sessionId (clear_storage s) = sessionId s"
  by (simp add: clear_storage_def removeItem_def)

lemma sent_clear_storage: "sent (clear_storage s) = sent s"
  by (simp add: clear_storage_def removeItem_def)

lemma console_clear_storage: "console_errors (clear_storage s) = console_errors s"
  by (simp add: clear_storage_def removeItem_def)

lemma localStorage_clear_storage:
  "localStorage (clear_storage s) =
     map_option (\<lambda>m. m(''session_id'' := None, ''encrypted_credentials'' := None)) (localStorage s)"
  by (cases "localStorage s") (simp_all add: clear_storage_def removeItem_def has_window_def)

lemma send_Resolved:
  "send s cfg (Resolved x) = (s\<lparr>sent := sent s @ [request_interceptor s cfg]\<rparr>, Resolved x)"
  by (simp add: send_def)

lemma send_Rejected:
  "send s cfg (Rejected e) =
     (if error_status e = Some 401
      then clear_storage (s\<lparr>sent := sent s @ [request_interceptor s cfg], sessionId := None\<rparr>)
      else s\<lparr>sent := sent s @ [request_interceptor s cfg]\<rparr>, Rejected e)"
  by (simp add: send_def response_interceptor_def)

text \<open>The state after a request: only a 401 rejection changes more than the log.\<close>

lemma fst_send:
  "fst (send s cfg r) =
     (case r of
        Resolved x \<Rightarrow> s\<lparr>sent := sent s @ [request_interceptor s cfg]\<rparr>
      | Rejected e \<Rightarrow>
          if error_status e = Some 401
          then clear_storage (s\<lparr>sent := sent s @ [request_interceptor s cfg], sessionId := None\<rparr>)
          else s\<lparr>sent := sent s @ [request_interceptor s cfg]\<rparr>)"
  by (cases r) (simp_all add: send_Resolved send_Rejected)

lemma snd_send: "snd (send s cfg r) = r"
  by (cases r) (simp_all add: send_Resolved send_Rejected)

lemma sent_send: "sent (fst (send s cfg r)) = sent s @ [request_interceptor s cfg]"
  by (cases r) (simp_all add: send_Resolved send_Rejected sent_clear_storage)

lemma engine_clear_storage: "engine (clear_storage s) = engine s"
  by (simp add: clear_storage_def removeItem_def)

lemma engine_send: "engine (fst (send s cfg r)) = engine s"
  by (cases r) (simp_all add: send_Resolved send_Rejected engine_clear_storage)

lemma error_is_Error: "\<exists>msg. x = Error msg"
  by (cases x) simp

lemma sample_statuses:
  "error_status unauthorized = Some 401"
  "error_status unavailable = Some 503"
  "error_status timed_out = None"
  by (simp_all add: error_status_def unauthorized_def unavailable_def timed_out_def)

section \<open>Session lifecycle\<close>

text \<open>
  Claim C5. \<open>endSession\<close> never raises: whatever the network answers (success, a server
  error, a transport error), it returns normally, and on return the in-memory session id
  is null and neither \<open>session_id\<close> nor \<open>encrypted_credentials\<close> is in the store. A
  rejected request is logged with \<open>console.error\<close> and not rethrown.
\<close>

theorem endSession_best_effort:
  "snd (endSession s r) = Inr () \<and>
   sessionId (fst (endSession s r)) = None \<and>
   getItem ''session_id'' (fst (endSession s r)) = None \<and>
   getItem ''encrypted_credentials'' (fst (endSession s r)) = None \<and>
   console_errors (fst (endSession s (Rejected e))) =
     console_errors s @ (if truthy (sessionId s) then [(''Error ending session:'', e)] else [])"
  by (simp add: endSession_def Let_def getItem_clear_storage sessionId_clear_storage
      console_clear_storage send_Rejected)

text \<open>
  Claim C10. When no session id is held in memory, \<open>endSession\<close> sends no request (the
  log of sent requests is unchanged), still removes both persisted keys, and returns
  normally.
\<close>

theorem endSession_without_session:
  assumes "sessionId s = None"
  shows "sent (fst (endSession s r)) = sent s \<and>
         getItem ''session_id'' (fst (endSession s r)) = None \<and>
         getItem ''encrypted_credentials'' (fst (endSession s r)) = None \<and>
         snd (endSession s r) = Inr ()"
  using assms
  by (simp add: endSession_def Let_def truthy_def getItem_clear_storage sent_clear_storage)

theorem endSession_without_session_witness:
  "sessionId logged_out = None \<and>
   getItem ''session_id'' logged_out = Some ''s-1'' \<and>
   sent (fst (endSession logged_out (Rejected timed_out))) = [] \<and>
   getItem ''session_id'' (fst (endSession logged_out (Rejected timed_out))) = None \<and>
   getItem ''encrypted_credentials'' (fst (endSession logged_out (Rejected timed_out))) = None \<and>
   snd (endSession logged_out (Rejected timed_out)) = Inr ()"
  using endSession_without_session [of logged_out "Rejected timed_out"]
  by (simp add: logged_out_def getItem_def saved_store_def)

text \<open>
  Claim C9. A \<open>startSession\<close> call that fails with a transport error or with a server
  error other than 401 leaves the in-memory session id and the store as they were and
  raises an error; the session id is assigned and the two keys are written on a
  successful response (the keys only where there is a window).
\<close>

theorem startSession_atomic_on_failure:
  assumes "error_status e \<noteq> Some 401"
  shows "sessionId (fst (startSession s c (Rejected e))) = sessionId s \<and>
         localStorage (fst (startSession s c (Rejected e))) = localStorage s \<and>
         (\<exists>msg. snd (startSession s c (Rejected e)) = Inl (Error msg)) \<and>
         sessionId (fst (startSession s c (Resolved d))) = Some (sr_session_id d) \<and>
         getItem ''session_id'' (fst (startSession s c (Resolved d))) =
           (if has_window s then Some (sr_session_id d) else None) \<and>
         getItem ''encrypted_credentials'' (fst (startSession s c (Resolved d))) =
           (if has_window s then Some (sr_encrypted_credentials d) else None) \<and>
         snd (startSession s c (Resolved d)) = Inr d"
proof -
  obtain msg where
    "new_Error (engine s) (js_or (error_detail e) (JStr ''Failed to start session'')) = Error msg"
    using error_is_Error by blast
  with assms have "snd (startSession s c (Rejected e)) = Inl (Error msg)"
    by (simp add: startSession_def send_Rejected)
  then have raised: "\<exists>msg. snd (startSession s c (Rejected e)) = Inl (Error msg)"
    by blast
  from assms have kept:
    "sessionId (fst (startSession s c (Rejected e))) = sessionId s"
    "localStorage (fst (startSession s c (Rejected e))) = localStorage s"
    by (simp_all add: startSession_def send_Rejected)
  have written:
    "sessionId (fst (startSession s c (Resolved d))) = Some (sr_session_id d)"
    "getItem ''session_id'' (fst (startSession s c (Resolved d))) =
       (if has_window s then Some (sr_session_id d) else None)"
    "getItem ''encrypted_credentials'' (fst (startSession s c (Resolved d))) =
       (if has_window s then Some (sr_encrypted_credentials d) else None)"
    "snd (startSession s c (Resolved d)) = Inr d"
    by (auto simp: startSession_def send_Resolved Let_def has_window_def getItem_def setItem_def)
  from raised kept written show ?thesis by blast
qed

theorem startSession_atomic_on_failure_witness:
  "error_status unavailable \<noteq> Some 401 \<and>
   sessionId (fst (startSession logged_in sample_credentials (Rejected unavailable))) = Some ''s-1'' \<and>
   localStorage (fst (startSession logged_in sample_credentials (Rejected unavailable))) =
     Some saved_store \<and>
   sessionId (fst (startSession logged_in sample_credentials (Resolved sample_session))) =
     Some ''s-2'' \<and>
   getItem ''session_id'' (fst (startSession logged_in sample_credentials (Resolved sample_session))) =
     Some ''s-2''"
  using startSession_atomic_on_failure [of unavailable logged_in sample_credentials sample_session]
  by (simp add: sample_statuses logged_in_def sample_session_def has_window_def)

section \<open>Effects of the operations on the state\<close>

lemma fst_simple_ops:
  "fst (startAutomation s a rj) = fst (send s (req POST ''/api/start-automation'' (AutomationBody a)) rj)"
  "fst (getJobStatus s j rs) = fst (send s (req GET (''/api/job-status/'' @ j) NoBody) rs)"
  "fst (getUserJobs s rl) = fst (send s (req GET ''/api/jobs'' NoBody) rl)"
  "fst (cancelJob s j ru) = fst (send s (req DELETE (''/api/job/'' @ j) NoBody) ru)"
  "fst (getPrivacyPolicy s rp) = fst (send s (req GET ''/api/privacy-policy'' NoBody) rp)"
  "fst (healthCheck s rp) = fst (send s (req GET ''/api/health'' NoBody) rp)"
  by (simp_all add: startAutomation_def getJobStatus_def getUserJobs_def cancelJob_def
      getPrivacyPolicy_def healthCheck_def split: prod.splits reply.splits)

lemma fst_startSession_Rejected:
  "fst (startSession s c (Rejected e)) =
     fst (send s (req POST ''/api/start-session'' (CredentialsBody c)) (Rejected e :: SessionResponse reply))"
  by (simp add: startSession_def send_Rejected)

lemma localStorage_send:
  "localStorage (fst (send s cfg r)) =
     (case r of
        Resolved x \<Rightarrow> localStorage s
      | Rejected e \<Rightarrow>
          if error_status e = Some 401
          then map_option (\<lambda>m. m(''session_id'' := None, ''encrypted_credentials'' := None)) (localStorage s)
          else localStorage s)"
  by (cases r) (simp_all add: send_Resolved send_Rejected localStorage_clear_storage)

lemma sessionId_send:
  "sessionId (fst (send s cfg r)) =
     (case r of
        Resolved x \<Rightarrow> sessionId s
      | Rejected e \<Rightarrow> if error_status e = Some 401 then None else sessionId s)"
  by (cases r) (simp_all add: send_Resolved send_Rejected sessionId_clear_storage)

lemma getItem_send:
  "getItem k (fst (send s cfg r)) =
     (case r of
        Resolved x \<Rightarrow> getItem k s
      | Rejected e \<Rightarrow>
          if error_status e = Some 401
          then (if k = ''session_id'' \<or> k = ''encrypted_credentials'' then None else getItem k s)
          else getItem k s)"
  by (cases r; cases "localStorage s")
     (simp_all add: getItem_def localStorage_send)


lemma localStorage_endSession:
  "localStorage (fst (endSession s r)) =
     map_option (\<lambda>m. m(''session_id'' := None, ''encrypted_credentials'' := None)) (localStorage s)"
proof (cases "truthy (sessionId s)")
  case True
  have idem: "map_option (\<lambda>m. m(''session_id'' := None, ''encrypted_credentials'' := None))
                (map_option (\<lambda>m. m(''session_id'' := None, ''encrypted_credentials'' := None)) x) =
              map_option (\<lambda>m. m(''session_id'' := None, ''encrypted_credentials'' := None)) x"
    for x :: "(string \<rightharpoonup> string) option"
    by (cases x) simp_all
  from True show ?thesis
    by (cases r)
       (simp_all add: endSession_def Let_def send_Resolved send_Rejected
         localStorage_clear_storage idem)
next
  case False
  then show ?thesis
    by (simp add: endSession_def Let_def localStorage_clear_storage)
qed

lemma sent_endSession:
  "sent (fst (endSession s r)) =
     (if truthy (sessionId s) then sent s @ [request_interceptor s (req DELETE ''/api/session'' NoBody)]
      else sent s)"
  by (cases r)
     (simp_all add: endSession_def Let_def send_Resolved send_Rejected sent_clear_storage)

lemma localStorage_startSession_Resolved:
  "localStorage (fst (startSession s c (Resolved d))) =
     map_option (\<lambda>m. m(''session_id'' \<mapsto> sr_session_id d,
                         ''encrypted_credentials'' \<mapsto> sr_encrypted_credentials d)) (localStorage s)"
  by (cases "localStorage s")
     (simp_all add: startSession_def send_Resolved Let_def has_window_def setItem_def)

lemma localStorage_constructor: "localStorage (constructor s) = localStorage s"
  by (simp add: constructor_def Let_def)

lemma sent_constructor: "sent (constructor s) = sent s"
  by (simp add: constructor_def Let_def)

section \<open>The two persisted keys\<close>

lemma storage_step:
  "localStorage (exec s c) = localStorage s \<or>
   (\<exists>a b. localStorage (exec s c) =
      map_option (\<lambda>m. m(''session_id'' \<mapsto> a, ''encrypted_credentials'' \<mapsto> b)) (localStorage s)) \<or>
   localStorage (exec s c) =
      map_option (\<lambda>m. m(''session_id'' := None, ''encrypted_credentials'' := None)) (localStorage s)"
proof (cases c)
  case Construct
  then show ?thesis by (simp add: localStorage_constructor)
next
  case (StartSession cr r)
  show ?thesis
  proof (cases r)
    case (Resolved d)
    with StartSession show ?thesis
      using localStorage_startSession_Resolved [of s cr d] by auto
  next
    case (Rejected e)
    with StartSession show ?thesis
      by (simp add: fst_startSession_Rejected localStorage_send)
  qed
next
  case (EndSession r)
  then show ?thesis by (simp add: localStorage_endSession)
next
  case (StartAutomation a r)
  then show ?thesis by (simp add: fst_simple_ops localStorage_send split: reply.splits)
next
  case (GetJobStatus j r)
  then show ?thesis by (simp add: fst_simple_ops localStorage_send split: reply.splits)
next
  case (GetUserJobs r)
  then show ?thesis by (simp add: fst_simple_ops localStorage_send split: reply.splits)
next
  case (CancelJob j r)
  then show ?thesis by (simp add: fst_simple_ops localStorage_send split: reply.splits)
next
  case (GetPrivacyPolicy r)
  then show ?thesis by (simp add: fst_simple_ops localStorage_send split: reply.splits)
next
  case (HealthCheck r)
  then show ?thesis by (simp add: fst_simple_ops localStorage_send split: reply.splits)
qed simp_all

lemma paired_exec: "paired s \<Longrightarrow> paired (exec s c)"
  using storage_step [of s c]
  by (cases "localStorage s") (auto simp: paired_def getItem_def)

lemma paired_run: "paired s \<Longrightarrow> paired (run s cs)"
  by (induction cs arbitrary: s) (simp_all add: paired_exec)


text \<open>
  Claim C7. Every call of the client leaves the store as it was, or writes both
  \<open>session_id\<close> and \<open>encrypted_credentials\<close>, or removes both; hence from a store that
  holds both keys or neither, every execution reaches only such stores.
\<close>

theorem keys_change_together:
  "(localStorage (exec s c) = localStorage s \<or>
    (\<exists>a b. localStorage (exec s c) =
       map_option (\<lambda>m. m(''session_id'' \<mapsto> a, ''encrypted_credentials'' \<mapsto> b)) (localStorage s)) \<or>
    localStorage (exec s c) =
       map_option (\<lambda>m. m(''session_id'' := None, ''encrypted_credentials'' := None)) (localStorage s)) \<and>
   (paired s \<longrightarrow> paired (run s cs))"
  using storage_step [of s c] paired_run [of s cs] by blast

theorem keys_change_together_witness:
  "paired logged_in \<and>
   paired (run logged_in [GetUserJobs (Rejected unauthorized),
                          StartSession sample_credentials (Resolved sample_session),
                          EndSession (Rejected timed_out)])"
  using keys_change_together [of logged_in Construct
      "[GetUserJobs (Rejected unauthorized),
        StartSession sample_credentials (Resolved sample_session),
        EndSession (Rejected timed_out)]"]
  by (simp add: paired_def logged_in_def getItem_def saved_store_def)


section \<open>Authorization failures\<close>

lemma sessionId_endSession: "sessionId (fst (endSession s r)) = None"
  by (simp add: endSession_def Let_def sessionId_clear_storage)

lemma getItem_endSession:
  "getItem ''session_id'' (fst (endSession s r)) = None"
  "getItem ''encrypted_credentials'' (fst (endSession s r)) = None"
  by (simp_all add: endSession_def Let_def getItem_clear_storage)

lemma rejection_cases:
  assumes "rejection s c = Some e"
  obtains (start) cr where "c = StartSession cr (Rejected e)"
  | (endS) "c = EndSession (Rejected e)" "truthy (sessionId s)"
  | (auto) a where "c = StartAutomation a (Rejected e)"
  | (status) j where "c = GetJobStatus j (Rejected e)"
  | (jobs) "c = GetUserJobs (Rejected e)"
  | (cancel) j where "c = CancelJob j (Rejected e)"
  | (policy) "c = GetPrivacyPolicy (Rejected e)"
  | (health) "c = HealthCheck (Rejected e)"
  using assms by (cases "(s, c)" rule: rejection.cases) (auto split: if_splits)

lemma exec_unauthorized:
  assumes "rejection s c = Some e" and "error_status e = Some 401"
  shows "sessionId (exec s c) = None \<and>
         getItem ''session_id'' (exec s c) = None \<and>
         getItem ''encrypted_credentials'' (exec s c) = None \<and>
         length (sent (exec s c)) = Suc (length (sent s))"
  using assms(1)
proof (cases rule: rejection_cases)
  case (start cr)
  with assms(2) show ?thesis
    by (simp add: fst_startSession_Rejected sessionId_send getItem_send sent_send)
next
  case endS
  then show ?thesis
    by (simp add: sessionId_endSession getItem_endSession sent_endSession)
qed (use assms(2) in \<open>simp_all add: fst_simple_ops sessionId_send getItem_send sent_send\<close>)


lemma authorization_req: "authorization (req m u b) = None"
  by (simp add: req_def)

lemma send_no_session:
  assumes "no_session s"
  shows "no_session (fst (send s (req m u b) r)) \<and>
         (\<exists>qs. sent (fst (send s (req m u b) r)) = sent s @ qs \<and> unauthenticated qs)"
  using assms
  by (simp add: no_session_def sessionId_send getItem_send sent_send request_interceptor_def
      unauthenticated_def authorization_req split: reply.splits)

lemma step_no_session:
  assumes "no_session s" and "\<not> starts_session c"
  shows "no_session (exec s c) \<and>
         (\<exists>qs. sent (exec s c) = sent s @ qs \<and> unauthenticated qs)"
proof (cases c)
  case Construct
  with assms(1) show ?thesis
    by (simp add: constructor_def Let_def no_session_def getItem_def truthy_def unauthenticated_def)
next
  case (StartSession cr r)
  with assms(2) obtain e where r: "r = Rejected e" by (cases r) auto
  show ?thesis
    unfolding StartSession r exec.simps fst_startSession_Rejected
    by (rule send_no_session [OF assms(1)])
next
  case (EndSession r)
  from assms(1) have "\<not> truthy (sessionId s)" by (simp add: no_session_def truthy_def)
  then show ?thesis
    unfolding EndSession
    by (simp add: no_session_def sessionId_endSession getItem_endSession sent_endSession
        unauthenticated_def)
next
  case (StartAutomation a r)
  show ?thesis
    unfolding StartAutomation exec.simps fst_simple_ops by (rule send_no_session [OF assms(1)])
next
  case (GetJobStatus j r)
  show ?thesis
    unfolding GetJobStatus exec.simps fst_simple_ops by (rule send_no_session [OF assms(1)])
next
  case (GetUserJobs r)
  show ?thesis
    unfolding GetUserJobs exec.simps fst_simple_ops by (rule send_no_session [OF assms(1)])
next
  case (CancelJob j r)
  show ?thesis
    unfolding CancelJob exec.simps fst_simple_ops by (rule send_no_session [OF assms(1)])
next
  case (GetPrivacyPolicy r)
  show ?thesis
    unfolding GetPrivacyPolicy exec.simps fst_simple_ops by (rule send_no_session [OF assms(1)])
next
  case (HealthCheck r)
  show ?thesis
    unfolding HealthCheck exec.simps fst_simple_ops by (rule send_no_session [OF assms(1)])
qed (use assms(1) in \<open>simp_all add: unauthenticated_def\<close>)

lemma run_no_session:
  assumes "no_session s" and "\<not> list_ex starts_session cs"
  shows "\<exists>qs. sent (run s cs) = sent s @ qs \<and> unauthenticated qs"
  using assms
proof (induction cs arbitrary: s)
  case Nil
  then show ?case by (simp add: unauthenticated_def)
next
  case (Cons c cs)
  from Cons.prems have c: "\<not> starts_session c" and cs: "\<not> list_ex starts_session cs"
    by simp_all
  from step_no_session [OF Cons.prems(1) c] obtain q1
    where inv: "no_session (exec s c)" and q1: "sent (exec s c) = sent s @ q1" "unauthenticated q1"
    by blast
  from Cons.IH [OF inv cs] obtain q2
    where q2: "sent (run (exec s c) cs) = sent (exec s c) @ q2" "unauthenticated q2"
    by blast
  from q1 q2 have "sent (run s (c # cs)) = sent s @ (q1 @ q2) \<and> unauthenticated (q1 @ q2)"
    by (simp add: unauthenticated_def)
  then show ?case by blast
qed

lemma later_requests_unauthenticated:
  assumes "no_session s" and "\<not> list_ex starts_session cs"
  shows "unauthenticated (drop (length (sent s)) (sent (run s cs)))"
  using run_no_session [OF assms] by auto

text \<open>
  Claim C1. When the client receives a rejection with status 401 during any call, then
  after the call the in-memory session id is null and neither persisted key is in the
  store; exactly one request was sent (no retry); the interceptor, and with it the HTTP
  client, hands the original error on to its caller; and as long as no \<open>startSession\<close>
  succeeds, every later request, also after a page load, carries no bearer header.
\<close>

theorem unauthorized_forces_logout:
  assumes "rejection s c = Some e" and "error_status e = Some 401"
  shows "sessionId (exec s c) = None \<and>
         getItem ''session_id'' (exec s c) = None \<and>
         getItem ''encrypted_credentials'' (exec s c) = None \<and>
         length (sent (exec s c)) = Suc (length (sent s)) \<and>
         snd (response_interceptor s' e) = e \<and>
         snd (send s cfg (Rejected e)) = Rejected e \<and>
         (\<not> list_ex starts_session cs \<longrightarrow>
            unauthenticated (drop (length (sent (exec s c))) (sent (run (exec s c) cs))))"
proof -
  note u = exec_unauthorized [OF assms]
  from u have "no_session (exec s c)" by (simp add: no_session_def)
  then have "\<not> list_ex starts_session cs \<longrightarrow>
      unauthenticated (drop (length (sent (exec s c))) (sent (run (exec s c) cs)))"
    using later_requests_unauthenticated by blast
  with u assms(2) show ?thesis
    by (simp add: snd_send response_interceptor_def)
qed

theorem unauthorized_forces_logout_witness:
  "rejection logged_in (GetUserJobs (Rejected unauthorized)) = Some unauthorized \<and>
   error_status unauthorized = Some 401 \<and>
   sessionId (exec logged_in (GetUserJobs (Rejected unauthorized))) = None \<and>
   getItem ''session_id'' (exec logged_in (GetUserJobs (Rejected unauthorized))) = None \<and>
   getItem ''encrypted_credentials'' (exec logged_in (GetUserJobs (Rejected unauthorized))) = None \<and>
   \<not> list_ex starts_session [Construct, GetUserJobs (Resolved []), HealthCheck (Rejected timed_out)] \<and>
   unauthenticated
     (drop (length (sent (exec logged_in (GetUserJobs (Rejected unauthorized)))))
        (sent (run (exec logged_in (GetUserJobs (Rejected unauthorized)))
           [Construct, GetUserJobs (Resolved []), HealthCheck (Rejected timed_out)])))"
proof -
  have r: "rejection logged_in (GetUserJobs (Rejected unauthorized)) = Some unauthorized"
    by simp
  have st: "error_status unauthorized = Some 401"
    by (simp add: sample_statuses)
  have quiet: "\<not> list_ex starts_session
      [Construct, GetUserJobs (Resolved []), HealthCheck (Rejected timed_out)]"
    by simp
  from unauthorized_forces_logout [OF r st, where s' = logged_in
      and cfg = "req GET ''/api/jobs'' NoBody"
      and cs = "[Construct, GetUserJobs (Resolved []), HealthCheck (Rejected timed_out)]"]
    r st quiet
  show ?thesis by blast
qed

text \<open>
  Claim C6. \<open>isAuthenticated\<close> is the predicate "a session id is held in memory" and
  leaves the state as it is; it is true right after a successful \<open>startSession\<close>, false
  right after \<open>endSession\<close> whatever the network answered, and false right after any call
  during which a 401 rejection was received.
\<close>

theorem isAuthenticated_tracks_session:
  "isAuthenticated s = (getSessionId s \<noteq> None) \<and>
   exec s IsAuthenticated = s \<and>
   isAuthenticated (fst (startSession s cr (Resolved d))) \<and>
   \<not> isAuthenticated (fst (endSession s r)) \<and>
   (rejection s c = Some e \<and> error_status e = Some 401 \<longrightarrow> \<not> isAuthenticated (exec s c))"
proof -
  have "isAuthenticated (fst (startSession s cr (Resolved d)))"
    by (simp add: isAuthenticated_def startSession_def send_Resolved Let_def setItem_def)
  moreover have "\<not> isAuthenticated (fst (endSession s r))"
    by (simp add: isAuthenticated_def sessionId_endSession)
  moreover have "rejection s c = Some e \<and> error_status e = Some 401 \<longrightarrow> \<not> isAuthenticated (exec s c)"
    using exec_unauthorized [of s c e] by (simp add: isAuthenticated_def)
  ultimately show ?thesis
    by (simp add: isAuthenticated_def getSessionId_def)
qed

theorem isAuthenticated_tracks_session_witness:
  "isAuthenticated logged_in \<and>
   rejection logged_in (CancelJob ''abc123'' (Rejected unauthorized)) = Some unauthorized \<and>
   error_status unauthorized = Some 401 \<and>
   \<not> isAuthenticated (exec logged_in (CancelJob ''abc123'' (Rejected unauthorized))) \<and>
   \<not> isAuthenticated logged_out \<and>
   isAuthenticated (fst (startSession logged_out sample_credentials (Resolved sample_session)))"
  using isAuthenticated_tracks_session [where s = logged_in
      and c = "CancelJob ''abc123'' (Rejected unauthorized)" and e = unauthorized]
    isAuthenticated_tracks_session [where s = logged_out and cr = sample_credentials
      and d = sample_session]
  by (simp add: sample_statuses isAuthenticated_def logged_in_def logged_out_def)

section \<open>Error policy of the operations\<close>

lemma new_Error_expected:
  "new_Error eng (js_or (error_detail e) (JStr fb)) = Error (expected_message eng fb e)"
proof (cases "response e")
  case None
  then show ?thesis
    by (simp add: new_Error_def js_or_def error_detail_def expected_message_def)
next
  case (Some r)
  show ?thesis
  proof (cases "detail r")
    case (JNum n)
    with Some show ?thesis
      by (cases n)
         (simp_all add: new_Error_def js_or_def error_detail_def expected_message_def)
  qed (use Some in \<open>simp_all add: new_Error_def js_or_def error_detail_def expected_message_def
         split: option.splits\<close>)
qed

text \<open>
  Claim C2 as stated fails in three ways. \<open>getPrivacyPolicy\<close>, answered with a 503 whose
  body carries the message \<open>Service unavailable\<close>, raises its fixed message, not the
  server's. \<open>startSession\<close>, answered with a body whose message is the empty string, raises
  its fallback, not the message of the body. \<open>getUserJobs\<close>, answered with a validation
  failure whose \<open>detail\<close> is a list of objects, raises \<open>[object Object]\<close>, which is neither
  a message of the body nor the fallback.
\<close>

theorem errors_not_as_claimed:
  "snd (getPrivacyPolicy logged_in (Rejected unavailable)) \<noteq>
     Inl (Error (claimed_message ''Failed to load privacy policy'' unavailable)) \<and>
   snd (startSession logged_in sample_credentials (Rejected empty_detail)) \<noteq>
     Inl (Error (claimed_message ''Failed to start session'' empty_detail)) \<and>
   snd (getUserJobs logged_in (Rejected validation_failed)) \<noteq>
     Inl (Error (claimed_message ''Failed to get user jobs'' validation_failed)) \<and>
   snd (getUserJobs logged_in (Rejected validation_failed)) = Inl (Error ''[object Object]'')"
  by (simp add: getPrivacyPolicy_def startSession_def getUserJobs_def send_Rejected
      claimed_message_def error_detail_def error_status_def new_Error_def js_or_def
      unavailable_def empty_detail_def validation_failed_def)

text \<open>
  Claim C2, amended. On every rejection, \<open>startSession\<close>, \<open>startAutomation\<close>,
  \<open>getJobStatus\<close>, \<open>getUserJobs\<close> and \<open>cancelJob\<close> raise one error. Its message is the
  operation's fixed fallback when there is no response or the body's \<open>detail\<close> is
  missing or falsy (\<open>null\<close>, \<open>false\<close>, zero, NaN, the empty string); it is the \<open>detail\<close>
  itself
  when that is a non-empty string; and otherwise it is the string JavaScript converts
  the \<open>detail\<close> to (\<open>true\<close>, the number's text, an array's elements joined by commas,
  \<open>[object Object]\<close>), or the message of the engine's \<open>TypeError\<close> where that conversion
  throws. \<open>getPrivacyPolicy\<close> and \<open>healthCheck\<close> raise one error that always carries their
  fixed message; \<open>endSession\<close> raises nothing.
\<close>

theorem normalized_errors:
  "snd (startSession s cr (Rejected e)) =
     Inl (Error (expected_message (engine s) ''Failed to start session'' e)) \<and>
   snd (startAutomation s a (Rejected e)) =
     Inl (Error (expected_message (engine s) ''Failed to start automation'' e)) \<and>
   snd (getJobStatus s j (Rejected e)) =
     Inl (Error (expected_message (engine s) ''Failed to get job status'' e)) \<and>
   snd (getUserJobs s (Rejected e)) =
     Inl (Error (expected_message (engine s) ''Failed to get user jobs'' e)) \<and>
   snd (cancelJob s j (Rejected e)) =
     Inl (Error (expected_message (engine s) ''Failed to cancel job'' e)) \<and>
   snd (getPrivacyPolicy s (Rejected e)) = Inl (Error ''Failed to load privacy policy'') \<and>
   snd (healthCheck s (Rejected e)) = Inl (Error ''Health check failed'') \<and>
   snd (endSession s (Rejected e)) = Inr ()"
  by (simp add: startSession_def startAutomation_def getJobStatus_def getUserJobs_def
      cancelJob_def getPrivacyPolicy_def healthCheck_def endSession_def Let_def
      send_Rejected new_Error_expected engine_clear_storage)

section \<open>Dashboard polling\<close>

lemma message_getUserJobs:
  "snd (getUserJobs s (Rejected e)) =
     Inl (Error (expected_message (engine s) ''Failed to get user jobs'' e))"
  by (simp add: getUserJobs_def send_Rejected new_Error_expected engine_clear_storage)

lemma loadJobs_toast_rule:
  "toasts (snd (loadJobs sort_fn getTime (s, d) (Rejected e))) =
     (if str_includes (expected_message (engine s) ''Failed to get user jobs'' e) ''401''
      then toasts d
      else toasts d @ [ToastError ''Failed to load jobs''])"
  by (simp add: loadJobs_def getUserJobs_def send_Rejected new_Error_expected engine_clear_storage)

lemma loadJobs_keeps_timer:
  "interval_set (snd (loadJobs sort_fn getTime (s, d) r)) = interval_set d"
  by (cases r) (simp_all add: loadJobs_def getUserJobs_def send_Rejected send_Resolved)

text \<open>
  Claim C3 names a behaviour the code aims at and misses. \<open>loadJobs\<close> looks for the text
  \<open>401\<close> in the message of the error, but \<open>getUserJobs\<close> has replaced the axios error by
  one whose message is the server's \<open>detail\<close> or \<open>Failed to get user jobs\<close>; the status is
  gone. So a 401 whose body reads \<open>Invalid or expired session\<close> is shown as a toast, and
  a 500 whose body mentions 401 is swallowed. The timer is untouched in both.
\<close>

theorem polling_toast_depends_on_message:
  "toasts (snd (loadJobs sort_fn getTime (logged_in, fresh_dashboard) (Rejected unauthorized))) =
     [ToastError ''Failed to load jobs''] \<and>
   toasts (snd (loadJobs sort_fn getTime (logged_in, fresh_dashboard) (Rejected misleading))) = [] \<and>
   interval_set (snd (loadJobs sort_fn getTime (logged_in, fresh_dashboard) (Rejected unauthorized))) \<and>
   interval_set (snd (loadJobs sort_fn getTime (logged_in, fresh_dashboard) (Rejected misleading)))"
  by (simp add: loadJobs_toast_rule loadJobs_keeps_timer expected_message_def
      unauthorized_def misleading_def fresh_dashboard_def)

section \<open>The job list\<close>

lemma mset_place: "mset (place cmp x xs) = add_mset x (mset xs)"
  by (induction xs) simp_all

lemma mset_array_sort: "mset (array_sort cmp xs) = mset xs"
  by (induction xs) (simp_all add: mset_place)

lemma set_place: "set (place cmp x xs) = insert x (set xs)"
  by (induction xs) auto

lemma set_array_sort: "set (array_sort cmp xs) = set xs"
  by (induction xs) (simp_all add: set_place)

subsection \<open>What a consistent comparator gives\<close>

lemma consistent_on_subset: "consistent_on cmp S \<Longrightarrow> T \<subseteq> S \<Longrightarrow> consistent_on cmp T"
  unfolding consistent_on_def by blast

lemma consistent_refl: "consistent_on cmp S \<Longrightarrow> a \<in> S \<Longrightarrow> sort_compare cmp a a = 0"
  unfolding consistent_on_def by blast

lemma consistent_sym:
  "consistent_on cmp S \<Longrightarrow> a \<in> S \<Longrightarrow> b \<in> S \<Longrightarrow> sort_compare cmp a b = 0
     \<Longrightarrow> sort_compare cmp b a = 0"
  unfolding consistent_on_def by blast

lemma consistent_trans_zero:
  "consistent_on cmp S \<Longrightarrow> a \<in> S \<Longrightarrow> b \<in> S \<Longrightarrow> c \<in> S \<Longrightarrow> sort_compare cmp a b = 0
     \<Longrightarrow> sort_compare cmp b c = 0 \<Longrightarrow> sort_compare cmp a c = 0"
  unfolding consistent_on_def by blast

lemma consistent_trans_neg:
  "consistent_on cmp S \<Longrightarrow> a \<in> S \<Longrightarrow> b \<in> S \<Longrightarrow> c \<in> S \<Longrightarrow> sort_compare cmp a b < 0
     \<Longrightarrow> sort_compare cmp b c < 0 \<Longrightarrow> sort_compare cmp a c < 0"
  unfolding consistent_on_def by blast

lemma consistent_trans_pos:
  "consistent_on cmp S \<Longrightarrow> a \<in> S \<Longrightarrow> b \<in> S \<Longrightarrow> c \<in> S \<Longrightarrow> sort_compare cmp a b > 0
     \<Longrightarrow> sort_compare cmp b c > 0 \<Longrightarrow> sort_compare cmp a c > 0"
  unfolding consistent_on_def by blast

text \<open>Greater one way is less the other way.\<close>

lemma consistent_flip:
  assumes c: "consistent_on cmp S" and a: "a \<in> S" and b: "b \<in> S"
    and gt: "sort_compare cmp a b > 0"
  shows "sort_compare cmp b a < 0"
proof (rule ccontr)
  assume "\<not> sort_compare cmp b a < 0"
  then consider "sort_compare cmp b a = 0" | "sort_compare cmp b a > 0" by linarith
  then show False
  proof cases
    case 1
    from consistent_sym [OF c b a 1] gt show False by simp
  next
    case 2
    from consistent_trans_pos [OF c a b a gt 2] consistent_refl [OF c a] show False by simp
  qed
qed

lemma consistent_flip_neg:
  assumes c: "consistent_on cmp S" and a: "a \<in> S" and b: "b \<in> S"
    and lt: "sort_compare cmp a b < 0"
  shows "sort_compare cmp b a > 0"
proof (rule ccontr)
  assume "\<not> sort_compare cmp b a > 0"
  then consider "sort_compare cmp b a = 0" | "sort_compare cmp b a < 0" by linarith
  then show False
  proof cases
    case 1
    from consistent_sym [OF c b a 1] lt show False by simp
  next
    case 2
    from consistent_trans_neg [OF c a b a lt 2] consistent_refl [OF c a] show False by simp
  qed
qed

text \<open>"Not greater" is transitive.\<close>

lemma consistent_le_trans:
  assumes c: "consistent_on cmp S" and a: "a \<in> S" and b: "b \<in> S" and d: "d \<in> S"
    and ab: "sort_compare cmp a b \<le> 0" and bd: "sort_compare cmp b d \<le> 0"
  shows "sort_compare cmp a d \<le> 0"
proof (rule ccontr)
  assume "\<not> sort_compare cmp a d \<le> 0"
  then have ad: "sort_compare cmp a d > 0" by simp
  then have da: "sort_compare cmp d a < 0" by (rule consistent_flip [OF c a d])
  from ab bd consider
      "sort_compare cmp a b = 0" "sort_compare cmp b d = 0"
    | "sort_compare cmp a b < 0" "sort_compare cmp b d < 0"
    | "sort_compare cmp a b < 0" "sort_compare cmp b d = 0"
    | "sort_compare cmp a b = 0" "sort_compare cmp b d < 0"
    by linarith
  then show False
  proof cases
    case 1
    from consistent_trans_zero [OF c a b d 1] ad show False by simp
  next
    case 2
    from consistent_trans_neg [OF c a b d 2] ad show False by simp
  next
    case 3
    from consistent_trans_neg [OF c d a b da 3(1)] have "sort_compare cmp d b < 0" .
    with consistent_sym [OF c b d 3(2)] show False by simp
  next
    case 4
    from consistent_trans_neg [OF c b d a 4(2) da] have "sort_compare cmp b a < 0" .
    with consistent_sym [OF c a b 4(1)] show False by simp
  qed
qed

subsection \<open>The insertion sort conforms\<close>

lemma sorted_place:
  assumes "consistent_on cmp (insert x (set ys))"
    and "sorted_wrt (\<lambda>a b. sort_compare cmp a b \<le> 0) ys"
  shows "sorted_wrt (\<lambda>a b. sort_compare cmp a b \<le> 0) (place cmp x ys)"
  using assms
proof (induction ys)
  case Nil
  then show ?case by simp
next
  case (Cons y ys)
  note c = Cons.prems(1)
  have x: "x \<in> insert x (set (y # ys))" and y: "y \<in> insert x (set (y # ys))" by simp_all
  show ?case
  proof (cases "sort_compare cmp x y \<le> 0")
    case True
    have "sort_compare cmp x z \<le> 0" if "z \<in> set ys" for z
    proof -
      from that have z: "z \<in> insert x (set (y # ys))" by simp
      from Cons.prems(2) that have "sort_compare cmp y z \<le> 0" by simp
      with True show ?thesis by (rule consistent_le_trans [OF c x y z])
    qed
    with True Cons.prems(2) show ?thesis by simp
  next
    case False
    then have "sort_compare cmp y x < 0"
      using consistent_flip [OF c x y] by simp
    moreover have "consistent_on cmp (insert x (set ys))"
      by (rule consistent_on_subset [OF c]) auto
    then have "sorted_wrt (\<lambda>a b. sort_compare cmp a b \<le> 0) (place cmp x ys)"
      using Cons.IH Cons.prems(2) by simp
    ultimately show ?thesis
      using False Cons.prems(2) by (auto simp: set_place)
  qed
qed

lemma sorted_array_sort:
  "consistent_on cmp (set xs) \<Longrightarrow>
     sorted_wrt (\<lambda>a b. sort_compare cmp a b \<le> 0) (array_sort cmp xs)"
proof (induction xs)
  case Nil
  then show ?case by simp
next
  case (Cons x xs)
  from Cons.prems have "consistent_on cmp (set xs)"
    by (rule consistent_on_subset) auto
  then have "sorted_wrt (\<lambda>a b. sort_compare cmp a b \<le> 0) (array_sort cmp xs)"
    by (rule Cons.IH)
  moreover from Cons.prems have "consistent_on cmp (insert x (set (array_sort cmp xs)))"
    by (simp add: set_array_sort)
  ultimately show ?case by (simp add: sorted_place)
qed

lemma conforming_array_sort: "conforming array_sort"
  unfolding conforming_def by (simp add: mset_array_sort sorted_array_sort)

subsection \<open>The comparator of the dashboard\<close>

lemma compare_parsed:
  assumes "getTime (js_created_at x) = Some tx" and "getTime (js_created_at y) = Some ty"
  shows "sort_compare (by_created_desc getTime) x y = ty - tx"
    and "newest_first getTime x y = (ty \<le> tx)"
  using assms by (simp_all add: sort_compare_def by_created_desc_def newest_first_def)

lemma consistent_by_created_desc:
  assumes "\<forall>j\<in>S. getTime (js_created_at j) \<noteq> None"
  shows "consistent_on (by_created_desc getTime) S"
proof -
  have v: "sort_compare (by_created_desc getTime) a b =
      the (getTime (js_created_at b)) - the (getTime (js_created_at a))"
    if "a \<in> S" "b \<in> S" for a b
  proof -
    from that assms obtain ta tb
      where "getTime (js_created_at a) = Some ta" "getTime (js_created_at b) = Some tb"
      by (meson option.exhaust)
    then show ?thesis by (simp add: compare_parsed)
  qed
  have "by_created_desc getTime a b \<noteq> None" if "a \<in> S" "b \<in> S" for a b
  proof -
    from that assms obtain ta tb
      where "getTime (js_created_at a) = Some ta" "getTime (js_created_at b) = Some tb"
      by (meson option.exhaust)
    then show ?thesis by (simp add: by_created_desc_def)
  qed
  then show ?thesis
    unfolding consistent_on_def by (auto simp: v)
qed

lemma ordered_newest_first:
  assumes "getTime (js_created_at a) \<noteq> None" and "getTime (js_created_at b) \<noteq> None"
    and "sort_compare (by_created_desc getTime) a b \<le> 0"
  shows "newest_first getTime a b"
  using assms by (auto simp: compare_parsed)

lemma jobs_loadJobs_Resolved:
  "jobs (snd (loadJobs sort_fn getTime sd (Resolved js))) = sort_fn (by_created_desc getTime) js"
  by (cases sd) (simp add: loadJobs_def getUserJobs_def send_Resolved)

lemma poll_snoc:
  "poll sort_fn getTime sd (rs @ [r]) = loadJobs sort_fn getTime (poll sort_fn getTime sd rs) r"
  by (induction rs arbitrary: sd) simp_all

lemma sorted_jobs:
  assumes conf: "conforming sort_fn"
    and parsed: "\<forall>j\<in>set js. getTime (js_created_at j) \<noteq> None"
  shows "mset (sort_fn (by_created_desc getTime) js) = mset js"
    and "sorted_wrt (newest_first getTime) (sort_fn (by_created_desc getTime) js)"
proof -
  let ?out = "sort_fn (by_created_desc getTime) js"
  from conf show same: "mset ?out = mset js"
    unfolding conforming_def by blast
  then have elems: "set ?out = set js" by (rule mset_eq_setD)
  from conf consistent_by_created_desc [OF parsed]
  have "sorted_wrt (\<lambda>a b. sort_compare (by_created_desc getTime) a b \<le> 0) ?out"
    unfolding conforming_def by blast
  then show "sorted_wrt (newest_first getTime) ?out"
  proof (rule sorted_wrt_mono_rel [rotated])
    fix a b
    assume "a \<in> set ?out" "b \<in> set ?out" "sort_compare (by_created_desc getTime) a b \<le> 0"
    with elems parsed show "newest_first getTime a b"
      by (simp add: ordered_newest_first)
  qed
qed

text \<open>
  Claim C4 as stated fails. The fetched jobs are typed by \<open>created_at: string\<close>, and a
  string that is no date makes the comparator answer NaN. On the list \<open>j0\<close> (1 January),
  \<open>j2\<close> (no date), \<open>j3\<close> (3 January) the comparator is not consistent, and the insertion
  sort, which conforms, leaves the list as fetched: the oldest job stays ahead of the
  newest, so the displayed list is not in creation order, not even on the jobs that
  carry a date.
\<close>

theorem unparsed_date_breaks_order:
  "map js_job_id
     (jobs (snd (loadJobs array_sort sample_getTime (logged_in, fresh_dashboard)
        (Resolved unparsed_jobs)))) = [''j0'', ''j2'', ''j3''] \<and>
   \<not> sorted_wrt (newest_first sample_getTime)
     (jobs (snd (loadJobs array_sort sample_getTime (logged_in, fresh_dashboard)
        (Resolved unparsed_jobs)))) \<and>
   \<not> sorted_wrt (newest_first sample_getTime)
     (filter (parses sample_getTime)
        (jobs (snd (loadJobs array_sort sample_getTime (logged_in, fresh_dashboard)
           (Resolved unparsed_jobs)))))"
  by (simp add: jobs_loadJobs_Resolved unparsed_jobs_def job_at_def sample_getTime_def
      sort_compare_def by_created_desc_def newest_first_def parses_def)

text \<open>
  Claim C4, amended. Whatever was fetched and shown before, after a successful fetch
  whose jobs all carry a \<open>created_at\<close> that parses as a date, the displayed list holds
  exactly the fetched jobs (the same jobs, each as often) ordered by creation time, newest
  first, on every engine whose sort does what the language promises; how equal times are
  ordered is not stated.
\<close>

theorem jobs_replaced_newest_first:
  assumes "conforming sort_fn"
    and "\<forall>j\<in>set js. getTime (js_created_at j) \<noteq> None"
  shows "mset (jobs (snd (poll sort_fn getTime sd (rs @ [Resolved js])))) = mset js \<and>
         sorted_wrt (newest_first getTime)
           (jobs (snd (poll sort_fn getTime sd (rs @ [Resolved js]))))"
  using sorted_jobs [OF assms]
  by (simp add: poll_snoc jobs_loadJobs_Resolved)

theorem jobs_replaced_newest_first_witness:
  "list_all (parses sample_getTime) sample_jobs \<and>
   map js_job_id (jobs (snd (poll array_sort sample_getTime (logged_in, fresh_dashboard)
       ([Resolved [job_at ''stale'' ''2024-01-01T00:00:00Z''], Rejected timed_out]
          @ [Resolved sample_jobs])))) = [''newer'', ''older''] \<and>
   mset (jobs (snd (poll array_sort sample_getTime (logged_in, fresh_dashboard)
       ([Resolved [job_at ''stale'' ''2024-01-01T00:00:00Z''], Rejected timed_out]
          @ [Resolved sample_jobs])))) = mset sample_jobs \<and>
   sorted_wrt (newest_first sample_getTime)
     (jobs (snd (poll array_sort sample_getTime (logged_in, fresh_dashboard)
       ([Resolved [job_at ''stale'' ''2024-01-01T00:00:00Z''], Rejected timed_out]
          @ [Resolved sample_jobs]))))"
proof -
  have valid: "\<forall>j\<in>set sample_jobs. sample_getTime (js_created_at j) \<noteq> None"
    by (simp add: sample_jobs_def job_at_def sample_getTime_def)
  then have all_parse: "list_all (parses sample_getTime) sample_jobs"
    by (simp add: list_all_iff parses_def)
  have order: "map js_job_id (array_sort (by_created_desc sample_getTime) sample_jobs) =
      [''newer'', ''older'']"
    by (simp add: sample_jobs_def job_at_def sample_getTime_def sort_compare_def by_created_desc_def)
  from jobs_replaced_newest_first [OF conforming_array_sort valid,
      where sd = "(logged_in, fresh_dashboard)"
      and rs = "[Resolved [job_at ''stale'' ''2024-01-01T00:00:00Z''], Rejected timed_out]"]
    all_parse order
  show ?thesis
    by (simp only: poll_snoc jobs_loadJobs_Resolved)
qed

section \<open>The submitted configuration\<close>

lemma credential_edit_keeps_config:
  assumes "credential_edit a"
  shows "fv_categories (apply_edit f a) = fv_categories f"
    and "fv_max_products_per_category (apply_edit f a) = fv_max_products_per_category f"
    and "fv_post_interval_seconds (apply_edit f a) = fv_post_interval_seconds f"
    and "fv_daily_pin_limit (apply_edit f a) = fv_daily_pin_limit f"
    and "fv_min_rating (apply_edit f a) = fv_min_rating f"
    and "fv_min_reviews (apply_edit f a) = fv_min_reviews f"
    and "fv_price_range_min (apply_edit f a) = fv_price_range_min f"
    and "fv_price_range_max (apply_edit f a) = fv_price_range_max f"
  using assms by (cases a; simp)+

lemma credential_edits_keep_config:
  "list_all credential_edit es \<Longrightarrow> form_config (foldl apply_edit f es) = form_config f"
proof (induction es arbitrary: f)
  case Nil
  then show ?case by simp
next
  case (Cons a es)
  then have "form_config (foldl apply_edit (apply_edit f a) es) = form_config (apply_edit f a)"
    by simp
  also from Cons.prems have "form_config (apply_edit f a) = form_config f"
    by (simp add: form_config_def credential_edit_keeps_config)
  finally show ?case by simp
qed

lemma form_config_defaults: "form_config defaultValues = defaultAutomationConfig"
  by (simp add: form_config_def defaultValues_def defaultAutomationConfig_def)

text \<open>The default configuration passes the browser's checks of the number inputs.\<close>

lemma native_valid_form_config:
  "native_valid f =
     (number_input_ok 1 (Some 20) 1 (max_products_per_category (form_config f)) \<and>
      number_input_ok 60 None 1 (post_interval_seconds (form_config f)) \<and>
      number_input_ok 1 (Some 5) (1 / 10) (min_rating (form_config f)) \<and>
      number_input_ok 0 None 1 (min_reviews (form_config f)) \<and>
      number_input_ok 0 None 1 (price_range_min (form_config f)) \<and>
      number_input_ok 1 None 1 (price_range_max (form_config f)))"
  by (simp add: native_valid_def form_config_def)

lemma native_valid_defaults:
  "form_config f = defaultAutomationConfig \<Longrightarrow> native_valid f"
  by (simp add: native_valid_form_config defaultAutomationConfig_def number_input_ok_def)

lemma body_request_interceptor: "body (request_interceptor s cfg) = body cfg"
  by (simp add: request_interceptor_def split: option.splits)

lemma sent_onSubmit:
  "map body (sent (fst (onSubmit (s, h) data (Resolved d) r2))) =
     map body (sent s) @
       [CredentialsBody (form_credentials data),
        AutomationBody \<lparr>credentials = form_credentials data, config = form_config data\<rparr>]"
proof -
  let ?creds = "form_credentials data"
  let ?s1 = "fst (startSession s ?creds (Resolved d))"
  let ?rq = "\<lparr>credentials = ?creds, config = form_config data\<rparr>"
  have s1: "sent ?s1 = sent s @ [request_interceptor s (req POST ''/api/start-session'' (CredentialsBody ?creds))]"
    by (simp add: startSession_def send_Resolved Let_def setItem_def)
  have "fst (onSubmit (s, h) data (Resolved d) r2) = fst (startAutomation ?s1 ?rq r2)"
    by (simp add: onSubmit_def Let_def form_credentials_def form_config_def startSession_def
        send_Resolved split: prod.splits sum.splits)
  then show ?thesis
    by (simp add: fst_simple_ops sent_send s1 body_request_interceptor req_def)
qed


text \<open>
  Claim C8. A form on which the user has only typed credentials (no category toggled, no
  number input changed) and which passes the checks submits the default configuration:
  the request to start the automation carries \<open>defaultAutomationConfig\<close>, whose values
  are the ones listed.
\<close>

theorem unedited_form_submits_defaults:
  assumes "list_all credential_edit es"
    and "form_valid (foldl apply_edit defaultValues es)"
  shows "map body (sent (fst (handleSubmit (s, h) (foldl apply_edit defaultValues es) (Resolved d) r2))) =
           map body (sent s) @
             [CredentialsBody (form_credentials (foldl apply_edit defaultValues es)),
              AutomationBody
                \<lparr>credentials = form_credentials (foldl apply_edit defaultValues es),
                 config = defaultAutomationConfig\<rparr>] \<and>
         defaultAutomationConfig =
           \<lparr>categories = [''electronics'', ''home'', ''fashion'', ''health''],
            max_products_per_category = 5, post_interval_seconds = 300, daily_pin_limit = 50,
            min_rating = 4, min_reviews = 10, price_range_min = 5, price_range_max = 500\<rparr>"
proof -
  from assms(1) have cfg: "form_config (foldl apply_edit defaultValues es) = defaultAutomationConfig"
    by (simp add: credential_edits_keep_config form_config_defaults)
  then have "native_valid (foldl apply_edit defaultValues es)"
    by (rule native_valid_defaults)
  with cfg assms(2) show ?thesis
    by (simp add: handleSubmit_def sent_onSubmit) (simp add: defaultAutomationConfig_def)
qed

theorem unedited_form_submits_defaults_witness:
  "list_all credential_edit sample_edits \<and>
   form_valid (foldl apply_edit defaultValues sample_edits) \<and>
   map body (sent (fst (handleSubmit (logged_out, fresh_home)
       (foldl apply_edit defaultValues sample_edits) (Resolved sample_session) (Resolved sample_job)))) =
     [CredentialsBody sample_credentials,
      AutomationBody \<lparr>credentials = sample_credentials, config = defaultAutomationConfig\<rparr>]"
proof -
  have only_credentials: "list_all credential_edit sample_edits"
    by (simp add: sample_edits_def)
  have valid: "form_valid (foldl apply_edit defaultValues sample_edits)"
    by (simp add: sample_edits_def form_valid_def defaultValues_def defaultAutomationConfig_def)
  have creds: "form_credentials (foldl apply_edit defaultValues sample_edits) = sample_credentials"
    by (simp add: sample_edits_def form_credentials_def sample_credentials_def)
  have log: "sent logged_out = []"
    by (simp add: logged_out_def)
  from unedited_form_submits_defaults [OF only_credentials valid, where s = logged_out
      and h = fresh_home and d = sample_session and ?r2.0 = "Resolved sample_job"]
  show ?thesis
    by (simp add: only_credentials valid creds log)
qed

end
